theory Spec2Isabelle
  imports Main "HOL-Library.Word"
begin

section \<open>The C types of cgdiplus.h\<close>

text \<open>
  The bridge is built for 64-bit Windows: \<open>size_t\<close>, \<open>ptrdiff_t\<close>, \<open>ULONG_PTR\<close>, \<open>HDC\<close> and
  every pointer are 64-bit words, \<open>int\<close> and \<open>unsigned int\<close> are 32-bit words (the
  conversion between the two keeps the bits), \<open>uint8_t\<close> is an 8-bit word. A \<open>float\<close> is
  kept as its 32 bits; its subtraction belongs to the target and is a parameter
  (\<open>float_sub\<close> below).
\<close>

type_synonym size_t = "64 word"
type_synonym ptrdiff_t = "64 word"
type_synonym ptr = "64 word"
type_synonym ULONG_PTR = "64 word"
type_synonym HDC = "64 word"
type_synonym c_int = "32 word"
type_synonym c_uint = "32 word"
type_synonym uint32_t = "32 word"
type_synonym uint8_t = "8 word"
type_synonym c_float = "32 word"

definition SIZE_MAX :: size_t where
  "SIZE_MAX = - 1"

definition nullptr :: ptr where
  "nullptr = 0"

text \<open>\<open>GDIPColor\<close>: the fields \<open>r\<close>, \<open>g\<close>, \<open>b\<close>, \<open>a\<close> of the header, prefixed.\<close>

record GDIPColor =
  clr_r :: uint8_t
  clr_g :: uint8_t
  clr_b :: uint8_t
  clr_a :: uint8_t

record GDIPGraphics =
  native_graphics :: ptr
  graphics_last_status :: ptrdiff_t

record GDIPPen =
  native_pen :: ptr
  pen_last_status :: ptrdiff_t

record GDIPBrush =
  native_brush :: ptr
  brush_last_status :: ptrdiff_t

section \<open>The native library beneath the bridge\<close>

text \<open>
  GDI+ is not part of the repository. What the bridge hands to it is recorded, call by
  call, in a log; what it answers is a parameter of every operation (the record \<open>env\<close>).
  \<open>Status\<close> is the library's status code: \<open>Ok\<close>, or any other code, kept as its number.
  \<open>Color\<close> is the library's colour, built from four bytes in the order they are passed.
\<close>

datatype Status = Ok | NotOk nat

datatype Color = Color uint8_t uint8_t uint8_t uint8_t

datatype native_call =
    Call_GdiplusStartup ptr
  | Call_GdiplusShutdown ULONG_PTR
  | Call_Graphics HDC
  | Drop_Graphics GDIPGraphics
  | Call_Pen Color uint32_t
  | Drop_Pen GDIPPen
  | Call_Brush Color
  | Drop_Brush GDIPBrush
  | DrawLine ptr ptr c_int c_int c_int c_int
  | DrawRectangle ptr ptr c_int c_int c_uint c_uint
  | DrawArc ptr ptr c_int c_int c_uint c_uint c_float c_float
  | DrawEllipse ptr ptr c_int c_int c_uint c_uint
  | FillRectangle ptr ptr c_int c_int c_uint c_uint
  | FillPie ptr ptr c_int c_int c_uint c_uint c_float c_float
  | FillEllipse ptr ptr c_int c_int c_uint c_uint

text \<open>
  The answers of the native library and of the target's arithmetic:
  \<^item> \<open>float_sub x y\<close>: the \<open>float\<close> difference \<open>x - y\<close>;
  \<^item> \<open>startup_result p\<close>: the status \<open>GdiplusStartup\<close> returns for the token location \<open>p\<close>,
    and the token it issues;
  \<^item> \<open>graphics_built h\<close>: the object \<open>Graphics(hDC)\<close> builds;
  \<^item> \<open>pen_built c w\<close>, \<open>brush_built c\<close>: the object the constructor builds, or \<open>None\<close> when
    the allocation raises a native exception;
  \<^item> \<open>draw_result c\<close>: the status a drawing primitive returns.
\<close>

record env =
  float_sub :: "c_float \<Rightarrow> c_float \<Rightarrow> c_float"
  startup_result :: "ptr \<Rightarrow> Status \<times> ULONG_PTR"
  graphics_built :: "HDC \<Rightarrow> GDIPGraphics"
  pen_built :: "Color \<Rightarrow> uint32_t \<Rightarrow> GDIPPen option"
  brush_built :: "Color \<Rightarrow> GDIPBrush option"
  draw_result :: "native_call \<Rightarrow> Status"

section \<open>State of the bridge\<close>

text \<open>
  The global \<open>current_error\<close>, the caller's memory that output pointers refer to, and the
  log of native calls. A call ends in one of four ways: it returns a value; it writes
  through a null pointer; it reads \<open>error_list\<close> outside its bounds; or a native exception
  leaves it (no function of the bridge has a handler).
\<close>

datatype object =
    Token ULONG_PTR
  | Graphics GDIPGraphics
  | Pen GDIPPen
  | Brush GDIPBrush

record state =
  current_error :: size_t
  memory :: "ptr \<rightharpoonup> object"
  native_log :: "native_call list"

datatype 'a outcome = Return 'a | NullWrite | OutOfBounds | Unwind

definition init_state :: state where
  "init_state = \<lparr>current_error = SIZE_MAX, memory = Map.empty, native_log = []\<rparr>"

definition error_list :: "string list" where
  "error_list =
    [''GDI+ threw an exception'',
     ''GDI+ function returned non-OK status'',
     ''startup_token pointer is null'']"

definition native :: "native_call \<Rightarrow> state \<Rightarrow> state" where
  "native c s = s\<lparr>native_log := native_log s @ [c]\<rparr>"

definition store :: "ptr \<Rightarrow> object \<Rightarrow> state \<Rightarrow> state" where
  "store p v s = s\<lparr>memory := (memory s)(p \<mapsto> v)\<rparr>"

section \<open>cgdiplus.cc\<close>

text \<open>The two macros: set the slot, return 0.\<close>

definition EXCEPTION_OUT :: "state \<Rightarrow> c_int outcome \<times> state" where
  "EXCEPTION_OUT s = (Return 0, s\<lparr>current_error := 0\<rparr>)"

definition STATUS_OUT :: "state \<Rightarrow> c_int outcome \<times> state" where
  "STATUS_OUT s = (Return 0, s\<lparr>current_error := 1\<rparr>)"

definition cvt_clr :: "GDIPColor \<Rightarrow> Color" where
  "cvt_clr clr = Color (clr_r clr) (clr_g clr) (clr_b clr) (clr_a clr)"

definition err_pointer :: "state \<Rightarrow> string outcome" where
  "err_pointer s =
    (if unat (current_error s) < length error_list
     then Return (error_list ! unat (current_error s))
     else OutOfBounds)"

text \<open>
  \<open>GdiplusStartup\<close> receives the pointer as it is; on success it has written the token to
  a location that is not null.
\<close>

definition initialize_gdiplus :: "env \<Rightarrow> ptr \<Rightarrow> state \<Rightarrow> c_int outcome \<times> state" where
  "initialize_gdiplus e startup_token s =
    (let (status, token) = startup_result e startup_token;
         s1 = native (Call_GdiplusStartup startup_token) s;
         s2 = (if status = Ok \<and> startup_token \<noteq> nullptr
               then store startup_token (Token token) s1 else s1)
     in if status \<noteq> Ok then STATUS_OUT s2 else (Return 1, s2))"

definition done_gdiplus :: "ULONG_PTR \<Rightarrow> state \<Rightarrow> state" where
  "done_gdiplus startup_token s = native (Call_GdiplusShutdown startup_token) s"

definition from_hdc :: "env \<Rightarrow> HDC \<Rightarrow> ptr \<Rightarrow> state \<Rightarrow> c_int outcome \<times> state" where
  "from_hdc e hDC graphics s =
    (let s1 = native (Call_Graphics hDC) s
     in if graphics = nullptr then (NullWrite, s1)
        else (Return 1, store graphics (Graphics (graphics_built e hDC)) s1))"

definition done_graphics :: "GDIPGraphics \<Rightarrow> state \<Rightarrow> state" where
  "done_graphics graphics s = native (Drop_Graphics graphics) s"

definition create_pen ::
  "env \<Rightarrow> GDIPColor \<Rightarrow> uint32_t \<Rightarrow> ptr \<Rightarrow> state \<Rightarrow> c_int outcome \<times> state" where
  "create_pen e color width pen s =
    (let s1 = native (Call_Pen (cvt_clr color) width) s
     in case pen_built e (cvt_clr color) width of
          None \<Rightarrow> (Unwind, s1)
        | Some p \<Rightarrow>
            if pen = nullptr then (NullWrite, s1)
            else (Return 1, store pen (Pen p) s1))"

definition done_pen :: "GDIPPen \<Rightarrow> state \<Rightarrow> state" where
  "done_pen pen s = native (Drop_Pen pen) s"

definition create_brush ::
  "env \<Rightarrow> GDIPColor \<Rightarrow> ptr \<Rightarrow> state \<Rightarrow> c_int outcome \<times> state" where
  "create_brush e color brush s =
    (let s1 = native (Call_Brush (cvt_clr color)) s
     in case brush_built e (cvt_clr color) of
          None \<Rightarrow> (Unwind, s1)
        | Some b \<Rightarrow>
            if brush = nullptr then (NullWrite, s1)
            else (Return 1, store brush (Brush b) s1))"

definition done_brush :: "GDIPBrush \<Rightarrow> state \<Rightarrow> state" where
  "done_brush brush s = native (Drop_Brush brush) s"

text \<open>
  The drawing functions: the pointers go to the native method as they are, the status
  the method returns is dropped, the result is 1.
\<close>

definition forward :: "env \<Rightarrow> native_call \<Rightarrow> state \<Rightarrow> c_int outcome \<times> state" where
  "forward e c s = (let dropped = draw_result e c in (Return 1, native c s))"

definition draw_line ::
  "env \<Rightarrow> ptr \<Rightarrow> ptr \<Rightarrow> c_int \<Rightarrow> c_int \<Rightarrow> c_int \<Rightarrow> c_int \<Rightarrow> state \<Rightarrow> c_int outcome \<times> state" where
  "draw_line e graphics pen x1 y1 x2 y2 s =
    forward e (DrawLine graphics pen x1 y1 x2 y2) s"

definition draw_rectangle ::
  "env \<Rightarrow> ptr \<Rightarrow> ptr \<Rightarrow> c_int \<Rightarrow> c_int \<Rightarrow> c_uint \<Rightarrow> c_uint \<Rightarrow> state \<Rightarrow> c_int outcome \<times> state" where
  "draw_rectangle e graphics pen x y width height s =
    forward e (DrawRectangle graphics pen x y width height) s"

definition draw_arc ::
  "env \<Rightarrow> ptr \<Rightarrow> ptr \<Rightarrow> c_int \<Rightarrow> c_int \<Rightarrow> c_uint \<Rightarrow> c_uint \<Rightarrow> c_float \<Rightarrow> c_float \<Rightarrow>
   state \<Rightarrow> c_int outcome \<times> state" where
  "draw_arc e graphics pen rectleft recttop rectwidth rectheight start_angle end_angle s =
    forward e (DrawArc graphics pen rectleft recttop rectwidth rectheight start_angle
                 (float_sub e end_angle start_angle)) s"

definition draw_ellipse ::
  "env \<Rightarrow> ptr \<Rightarrow> ptr \<Rightarrow> c_int \<Rightarrow> c_int \<Rightarrow> c_uint \<Rightarrow> c_uint \<Rightarrow> state \<Rightarrow> c_int outcome \<times> state" where
  "draw_ellipse e graphics pen rectleft recttop rectwidth rectheight s =
    forward e (DrawEllipse graphics pen rectleft recttop rectwidth rectheight) s"

definition fill_rectangle ::
  "env \<Rightarrow> ptr \<Rightarrow> ptr \<Rightarrow> c_int \<Rightarrow> c_int \<Rightarrow> c_uint \<Rightarrow> c_uint \<Rightarrow> state \<Rightarrow> c_int outcome \<times> state" where
  "fill_rectangle e graphics brush rectleft recttop rectwidth rectheight s =
    forward e (FillRectangle graphics brush rectleft recttop rectwidth rectheight) s"

definition fill_arc ::
  "env \<Rightarrow> ptr \<Rightarrow> ptr \<Rightarrow> c_int \<Rightarrow> c_int \<Rightarrow> c_uint \<Rightarrow> c_uint \<Rightarrow> c_float \<Rightarrow> c_float \<Rightarrow>
   state \<Rightarrow> c_int outcome \<times> state" where
  "fill_arc e graphics brush rectleft recttop rectwidth rectheight start_angle end_angle s =
    forward e (FillPie graphics brush rectleft recttop rectwidth rectheight start_angle
                 (float_sub e end_angle start_angle)) s"

definition fill_ellipse ::
  "env \<Rightarrow> ptr \<Rightarrow> ptr \<Rightarrow> c_int \<Rightarrow> c_int \<Rightarrow> c_uint \<Rightarrow> c_uint \<Rightarrow> state \<Rightarrow> c_int outcome \<times> state" where
  "fill_ellipse e graphics brush rectleft recttop rectwidth rectheight s =
    forward e (FillEllipse graphics brush rectleft recttop rectwidth rectheight) s"

section \<open>Sequences of calls\<close>

text \<open>
  A caller's call, with its arguments; what it gets back (\<open>int\<close>, nothing, or a string);
  one step; and a run of steps. Each step has its own \<open>env\<close>: the native library may
  answer differently each time. A run ends at the first call that does not return.
\<close>

datatype call =
    Initialize_gdiplus ptr
  | Done_gdiplus ULONG_PTR
  | Err_pointer
  | From_hdc HDC ptr
  | Done_graphics GDIPGraphics
  | Create_pen GDIPColor uint32_t ptr
  | Done_pen GDIPPen
  | Create_brush GDIPColor ptr
  | Done_brush GDIPBrush
  | Draw_line ptr ptr c_int c_int c_int c_int
  | Draw_rectangle ptr ptr c_int c_int c_uint c_uint
  | Draw_arc ptr ptr c_int c_int c_uint c_uint c_float c_float
  | Draw_ellipse ptr ptr c_int c_int c_uint c_uint
  | Fill_rectangle ptr ptr c_int c_int c_uint c_uint
  | Fill_arc ptr ptr c_int c_int c_uint c_uint c_float c_float
  | Fill_ellipse ptr ptr c_int c_int c_uint c_uint

datatype retval = RInt c_int | RVoid | RStr string

fun as_int :: "c_int outcome \<times> state \<Rightarrow> retval outcome \<times> state" where
  "as_int (Return n, s) = (Return (RInt n), s)"
| "as_int (NullWrite, s) = (NullWrite, s)"
| "as_int (OutOfBounds, s) = (OutOfBounds, s)"
| "as_int (Unwind, s) = (Unwind, s)"

fun as_str :: "string outcome \<Rightarrow> retval outcome" where
  "as_str (Return m) = Return (RStr m)"
| "as_str NullWrite = NullWrite"
| "as_str OutOfBounds = OutOfBounds"
| "as_str Unwind = Unwind"

fun step :: "env \<Rightarrow> call \<Rightarrow> state \<Rightarrow> retval outcome \<times> state" where
  "step e (Initialize_gdiplus p) s = as_int (initialize_gdiplus e p s)"
| "step e (Done_gdiplus t) s = (Return RVoid, done_gdiplus t s)"
| "step e Err_pointer s = (as_str (err_pointer s), s)"
| "step e (From_hdc h p) s = as_int (from_hdc e h p s)"
| "step e (Done_graphics g) s = (Return RVoid, done_graphics g s)"
| "step e (Create_pen c w p) s = as_int (create_pen e c w p s)"
| "step e (Done_pen p) s = (Return RVoid, done_pen p s)"
| "step e (Create_brush c p) s = as_int (create_brush e c p s)"
| "step e (Done_brush b) s = (Return RVoid, done_brush b s)"
| "step e (Draw_line g p x1 y1 x2 y2) s = as_int (draw_line e g p x1 y1 x2 y2 s)"
| "step e (Draw_rectangle g p x y w h) s = as_int (draw_rectangle e g p x y w h s)"
| "step e (Draw_arc g p x y w h sa ea) s = as_int (draw_arc e g p x y w h sa ea s)"
| "step e (Draw_ellipse g p x y w h) s = as_int (draw_ellipse e g p x y w h s)"
| "step e (Fill_rectangle g b x y w h) s = as_int (fill_rectangle e g b x y w h s)"
| "step e (Fill_arc g b x y w h sa ea) s = as_int (fill_arc e g b x y w h sa ea s)"
| "step e (Fill_ellipse g b x y w h) s = as_int (fill_ellipse e g b x y w h s)"

fun returned :: "'a outcome \<Rightarrow> bool" where
  "returned (Return v) = True"
| "returned NullWrite = False"
| "returned OutOfBounds = False"
| "returned Unwind = False"

text \<open>A call has failed when it returns the failure indicator 0.\<close>

definition failed :: "retval outcome \<Rightarrow> bool" where
  "failed r = (r = Return (RInt 0))"

fun run :: "(env \<times> call) list \<Rightarrow> state \<Rightarrow> retval outcome list \<times> state" where
  "run [] s = ([], s)"
| "run ((e, c) # cs) s =
    (case step e c s of (r, s1) \<Rightarrow>
       if returned r then (case run cs s1 of (rs, s2) \<Rightarrow> (r # rs, s2))
       else ([r], s1))"

section \<open>Sample answers of the native library\<close>

text \<open>
  \<open>env_ok\<close>: start-up succeeds and issues token 7, every constructor builds its object
  (the \<open>Graphics\<close> object carries a non-OK last status), every drawing primitive reports
  a non-OK status. \<open>env_bad\<close>: start-up reports status 2 and the \<open>Pen\<close> and \<open>Brush\<close>
  constructors raise.
\<close>

definition env_ok :: env where
  "env_ok = \<lparr>float_sub = (\<lambda>x y. x - y),
     startup_result = (\<lambda>p. (Ok, 7)),
     graphics_built = (\<lambda>h. \<lparr>native_graphics = h, graphics_last_status = 2\<rparr>),
     pen_built = (\<lambda>c w. Some \<lparr>native_pen = 16, pen_last_status = 0\<rparr>),
     brush_built = (\<lambda>c. Some \<lparr>native_brush = 32, brush_last_status = 0\<rparr>),
     draw_result = (\<lambda>c. NotOk 1)\<rparr>"

definition env_bad :: env where
  "env_bad = env_ok\<lparr>startup_result := (\<lambda>p. (NotOk 2, 0)),
     pen_built := (\<lambda>c w. None), brush_built := (\<lambda>c. None)\<rparr>"

definition black :: GDIPColor where
  "black = \<lparr>clr_r = 0, clr_g = 0, clr_b = 0, clr_a = 0\<rparr>"

definition red :: GDIPColor where
  "red = \<lparr>clr_r = 255, clr_g = 0, clr_b = 0, clr_a = 255\<rparr>"

text \<open>Create a brush, fill a rectangle with it, release it: the scenario of the specification.\<close>

definition brush_scenario :: "(env \<times> call) list" where
  "brush_scenario =
    [(env_ok, Create_brush red 8192),
     (env_ok, Fill_rectangle 4096 8192 0 0 10 10),
     (env_ok, Done_brush \<lparr>native_brush = 32, brush_last_status = 0\<rparr>)]"

section \<open>Facts about single calls\<close>

lemma current_error_native: "current_error (native c s) = current_error s"
  by (simp add: native_def)

lemma current_error_store: "current_error (store p v s) = current_error s"
  by (simp add: store_def)

lemma forward_result: "forward e c s = (Return 1, native c s)"
  by (simp add: forward_def)

lemma length_error_list: "length error_list = 3"
  by (simp add: error_list_def)

lemma unat_SIZE_MAX: "unat SIZE_MAX = 18446744073709551615"
  by (simp add: SIZE_MAX_def unsigned_minus_1_eq_mask mask_eq_exp_minus_1)

lemma SIZE_MAX_neq: "SIZE_MAX \<noteq> 0" "SIZE_MAX \<noteq> 1" "SIZE_MAX \<noteq> 2"
  by (simp_all add: SIZE_MAX_def)

lemma err_pointer_init: "err_pointer init_state = OutOfBounds"
  by (simp add: err_pointer_def init_state_def unat_SIZE_MAX length_error_list)

lemma err_pointer_1:
  "current_error s = 1 \<Longrightarrow> err_pointer s = Return ''GDI+ function returned non-OK status''"
  by (simp add: err_pointer_def error_list_def)

lemma failed_as_int: "failed (fst (as_int x)) \<longleftrightarrow> fst x = Return 0"
  by (cases x rule: as_int.cases) (simp_all add: failed_def)

lemma snd_as_int: "snd (as_int x) = snd x"
  by (cases x rule: as_int.cases) simp_all

lemma failed_as_str: "\<not> failed (as_str r)"
  by (cases r) (simp_all add: failed_def)

lemma initialize_fst:
  "fst (initialize_gdiplus e p s) = (if fst (startup_result e p) \<noteq> Ok then Return 0 else Return 1)"
  by (simp add: initialize_gdiplus_def STATUS_OUT_def Let_def split: prod.splits)

lemma initialize_slot:
  "current_error (snd (initialize_gdiplus e p s)) =
     (if fst (startup_result e p) \<noteq> Ok then 1 else current_error s)"
  by (simp add: initialize_gdiplus_def STATUS_OUT_def Let_def current_error_native
      current_error_store split: prod.splits)

lemma from_hdc_fst:
  "fst (from_hdc e h p s) = (if p = nullptr then NullWrite else Return 1)"
  by (simp add: from_hdc_def Let_def)

lemma from_hdc_slot: "current_error (snd (from_hdc e h p s)) = current_error s"
  by (simp add: from_hdc_def Let_def current_error_native current_error_store)

lemma create_pen_fst:
  "fst (create_pen e c w p s) =
     (case pen_built e (cvt_clr c) w of None \<Rightarrow> Unwind
      | Some x \<Rightarrow> if p = nullptr then NullWrite else Return 1)"
  by (simp add: create_pen_def Let_def split: option.splits)

lemma create_pen_slot: "current_error (snd (create_pen e c w p s)) = current_error s"
  by (simp add: create_pen_def Let_def current_error_native current_error_store
      split: option.splits)

lemma create_brush_fst:
  "fst (create_brush e c p s) =
     (case brush_built e (cvt_clr c) of None \<Rightarrow> Unwind
      | Some x \<Rightarrow> if p = nullptr then NullWrite else Return 1)"
  by (simp add: create_brush_def Let_def split: option.splits)

lemma create_brush_slot: "current_error (snd (create_brush e c p s)) = current_error s"
  by (simp add: create_brush_def Let_def current_error_native current_error_store
      split: option.splits)

lemmas drawing_defs = draw_line_def draw_rectangle_def draw_arc_def draw_ellipse_def
  fill_rectangle_def fill_arc_def fill_ellipse_def

lemma step_failed:
  "failed (fst (step e c s)) \<longleftrightarrow>
     (\<exists>p. c = Initialize_gdiplus p \<and> fst (startup_result e p) \<noteq> Ok)"
  by (cases c)
    (simp_all add: failed_as_int failed_as_str initialize_fst from_hdc_fst create_pen_fst
      create_brush_fst drawing_defs forward_result split: option.splits,
     simp_all add: failed_def)

lemma step_slot:
  "current_error (snd (step e c s)) =
     (if failed (fst (step e c s)) then 1 else current_error s)"
  by (cases c)
    (simp_all add: failed_as_int failed_as_str snd_as_int initialize_fst initialize_slot
      from_hdc_fst from_hdc_slot create_pen_fst create_pen_slot create_brush_fst
      create_brush_slot drawing_defs forward_result current_error_native
      done_gdiplus_def done_graphics_def done_pen_def done_brush_def split: option.splits,
     simp_all add: failed_def)

section \<open>Facts about runs\<close>

lemma run_slot:
  "current_error (snd (run cs s)) =
     (if list_ex failed (fst (run cs s)) then 1 else current_error s)"
proof (induction cs arbitrary: s)
  case Nil
  show ?case by simp
next
  case (Cons x cs)
  obtain e c where x: "x = (e, c)" by (cases x)
  obtain r s1 where st: "step e c s = (r, s1)" by (cases "step e c s")
  have slot: "current_error s1 = (if failed r then 1 else current_error s)"
    using step_slot [of e c s] st by simp
  show ?case
  proof (cases "returned r")
    case True
    obtain rs s2 where rn: "run cs s1 = (rs, s2)" by (cases "run cs s1")
    have "current_error s2 = (if list_ex failed rs then 1 else current_error s1)"
      using Cons.IH [of s1] rn by simp
    with slot show ?thesis using x st True rn by simp
  next
    case False
    with slot show ?thesis using x st by simp
  qed
qed

lemma memory_store: "memory (store p v s) p = Some v"
  by (simp add: store_def)

lemma run_err_pointer:
  "err_pointer (snd (run cs init_state)) =
     (if list_ex failed (fst (run cs init_state))
      then Return ''GDI+ function returned non-OK status'' else OutOfBounds)"
proof (cases "list_ex failed (fst (run cs init_state))")
  case True
  then have "current_error (snd (run cs init_state)) = 1"
    by (simp add: run_slot)
  with True show ?thesis by (simp add: err_pointer_1)
next
  case False
  then have "current_error (snd (run cs init_state)) = SIZE_MAX"
    by (simp add: run_slot init_state_def)
  with False show ?thesis
    by (simp add: err_pointer_def unat_SIZE_MAX length_error_list)
qed

lemmas eval_defs = initialize_gdiplus_def from_hdc_def create_pen_def create_brush_def
  done_gdiplus_def done_graphics_def done_pen_def done_brush_def drawing_defs forward_def
  STATUS_OUT_def native_def store_def cvt_clr_def nullptr_def failed_def
  env_ok_def env_bad_def black_def red_def brush_scenario_def

section \<open>The claims\<close>

text \<open>
  C1. A creation call given a null output pointer should return 0 and record error
  kind 2 (``startup_token pointer is null''), leaving the rest of the state as it was.
  The code has no null check. From the initial state: \<open>initialize_gdiplus\<close> hands the null
  pointer to \<open>GdiplusStartup\<close> and reports that routine's status only (0 with kind 1 when it
  is not OK, 1 with the slot untouched when it is OK); \<open>create_pen\<close> and \<open>create_brush\<close>
  write through the null pointer and do not return. Kind 2 is recorded in no case.
\<close>

theorem null_output_pointer_not_reported:
  "initialize_gdiplus env_bad nullptr init_state =
     (Return 0, \<lparr>current_error = 1, memory = Map.empty,
                  native_log = [Call_GdiplusStartup nullptr]\<rparr>)
   \<and> initialize_gdiplus env_ok nullptr init_state =
     (Return 1, \<lparr>current_error = SIZE_MAX, memory = Map.empty,
                  native_log = [Call_GdiplusStartup nullptr]\<rparr>)
   \<and> create_pen env_ok black 1 nullptr init_state =
     (NullWrite, \<lparr>current_error = SIZE_MAX, memory = Map.empty,
                   native_log = [Call_Pen (Color 0 0 0 0) 1]\<rparr>)
   \<and> create_brush env_ok black nullptr init_state =
     (NullWrite, \<lparr>current_error = SIZE_MAX, memory = Map.empty,
                   native_log = [Call_Brush (Color 0 0 0 0)]\<rparr>)"
  by (simp add: initialize_gdiplus_def create_pen_def create_brush_def STATUS_OUT_def
      env_bad_def env_ok_def init_state_def native_def black_def cvt_clr_def)

text \<open>
  C2. For all start angles \<open>sa\<close> and end angles \<open>ea\<close>, \<open>draw_arc\<close> calls the native
  \<open>DrawArc\<close> and \<open>fill_arc\<close> calls the native \<open>FillPie\<close> with the sweep \<open>ea - sa\<close> (the
  \<open>float\<close> difference), the start angle, the rectangle and the two pointers as received;
  that call is the only change of the state, and the result is 1.
\<close>

theorem arc_sweep_forwarded:
  "draw_arc e g p l t w h sa ea s =
     (Return 1, s\<lparr>native_log := native_log s @ [DrawArc g p l t w h sa (float_sub e ea sa)]\<rparr>)
   \<and> fill_arc e g b l t w h sa ea s =
     (Return 1, s\<lparr>native_log := native_log s @ [FillPie g b l t w h sa (float_sub e ea sa)]\<rparr>)"
  by (simp add: draw_arc_def fill_arc_def forward_result native_def)

text \<open>
  C3. When \<open>GdiplusStartup\<close> returns a status other than \<open>Ok\<close>, \<open>initialize_gdiplus\<close>
  returns 0 and sets \<open>current_error\<close> to 1; when it returns \<open>Ok\<close>, \<open>initialize_gdiplus\<close>
  returns 1 and leaves \<open>current_error\<close> as it was.
\<close>

theorem initialize_status:
  "(fst (startup_result e tok) \<noteq> Ok \<longrightarrow>
      fst (initialize_gdiplus e tok s) = Return 0
      \<and> current_error (snd (initialize_gdiplus e tok s)) = 1)
   \<and> (fst (startup_result e tok) = Ok \<longrightarrow>
      fst (initialize_gdiplus e tok s) = Return 1
      \<and> current_error (snd (initialize_gdiplus e tok s)) = current_error s)"
  by (simp add: initialize_fst initialize_slot)

theorem initialize_status_witness:
  "fst (startup_result env_bad 4096) \<noteq> Ok
   \<and> fst (initialize_gdiplus env_bad 4096 init_state) = Return 0
   \<and> current_error (snd (initialize_gdiplus env_bad 4096 init_state)) = 1
   \<and> fst (startup_result env_ok 4096) = Ok
   \<and> fst (initialize_gdiplus env_ok 4096 init_state) = Return 1
   \<and> current_error (snd (initialize_gdiplus env_ok 4096 init_state)) = SIZE_MAX"
  using initialize_status [of env_bad 4096 init_state]
    initialize_status [of env_ok 4096 init_state]
  by (simp add: env_bad_def env_ok_def init_state_def)

text \<open>
  C4. When the native allocation raises, \<open>create_pen\<close> and \<open>create_brush\<close> should return 0
  and record error kind 0, and no exception should leave the call. The code has no
  handler (\<open>EXCEPTION_OUT\<close> is defined and never used): with constructors that raise, the
  exception leaves both calls and \<open>current_error\<close> keeps its initial value.
\<close>

theorem native_exception_propagates:
  "create_pen env_bad black 1 4096 init_state =
     (Unwind, \<lparr>current_error = SIZE_MAX, memory = Map.empty,
                native_log = [Call_Pen (Color 0 0 0 0) 1]\<rparr>)
   \<and> create_brush env_bad black 4096 init_state =
     (Unwind, \<lparr>current_error = SIZE_MAX, memory = Map.empty,
                native_log = [Call_Brush (Color 0 0 0 0)]\<rparr>)"
  by (simp add: create_pen_def create_brush_def env_bad_def env_ok_def init_state_def
      native_def black_def cvt_clr_def)

text \<open>
  C5. Only failing calls write \<open>current_error\<close>. A call that does not return 0 leaves the
  slot as it was. A call that returns 0 is an \<open>initialize_gdiplus\<close> whose start-up status
  was not OK, and \<open>err_pointer\<close> then returns the message of that kind; it still returns
  it after any further calls none of which fails. A run without a failing call leaves the
  slot as it was.
\<close>

theorem slot_written_only_by_failures:
  "(\<not> failed (fst (step e c s)) \<longrightarrow> current_error (snd (step e c s)) = current_error s)
   \<and> (failed (fst (step e c s)) \<longrightarrow>
        (\<exists>p. c = Initialize_gdiplus p \<and> fst (startup_result e p) \<noteq> Ok)
        \<and> err_pointer (snd (step e c s)) = Return ''GDI+ function returned non-OK status'')
   \<and> (failed (fst (step e c s)) \<and> \<not> list_ex failed (fst (run cs (snd (step e c s)))) \<longrightarrow>
        err_pointer (snd (run cs (snd (step e c s)))) =
          Return ''GDI+ function returned non-OK status'')
   \<and> (\<not> list_ex failed (fst (run cs s)) \<longrightarrow>
        current_error (snd (run cs s)) = current_error s)"
proof -
  have a: "\<not> failed (fst (step e c s)) \<longrightarrow> current_error (snd (step e c s)) = current_error s"
    by (simp add: step_slot)
  have b: "failed (fst (step e c s)) \<longrightarrow>
        (\<exists>p. c = Initialize_gdiplus p \<and> fst (startup_result e p) \<noteq> Ok)
        \<and> err_pointer (snd (step e c s)) = Return ''GDI+ function returned non-OK status''"
    using step_failed [of e c s] step_slot [of e c s] by (simp add: err_pointer_1)
  have c: "failed (fst (step e c s)) \<and> \<not> list_ex failed (fst (run cs (snd (step e c s)))) \<longrightarrow>
        err_pointer (snd (run cs (snd (step e c s)))) =
          Return ''GDI+ function returned non-OK status''"
    using step_slot [of e c s] run_slot [of cs "snd (step e c s)"]
    by (simp add: err_pointer_1)
  have d: "\<not> list_ex failed (fst (run cs s)) \<longrightarrow>
        current_error (snd (run cs s)) = current_error s"
    by (simp add: run_slot)
  from a b c d show ?thesis by blast
qed

theorem slot_written_only_by_failures_witness:
  "failed (fst (step env_bad (Initialize_gdiplus 4096) init_state))
   \<and> \<not> list_ex failed
        (fst (run brush_scenario (snd (step env_bad (Initialize_gdiplus 4096) init_state))))
   \<and> err_pointer (snd (run brush_scenario (snd (step env_bad (Initialize_gdiplus 4096) init_state))))
       = Return ''GDI+ function returned non-OK status''
   \<and> \<not> failed (fst (step env_ok (Create_pen black 1 4096) init_state))
   \<and> current_error (snd (step env_ok (Create_pen black 1 4096) init_state)) = SIZE_MAX
   \<and> \<not> list_ex failed (fst (run brush_scenario init_state))
   \<and> current_error (snd (run brush_scenario init_state)) = SIZE_MAX"
proof -
  have f: "failed (fst (step env_bad (Initialize_gdiplus 4096) init_state))"
    by (simp add: eval_defs)
  have n: "\<not> list_ex failed
        (fst (run brush_scenario (snd (step env_bad (Initialize_gdiplus 4096) init_state))))"
    by (simp add: eval_defs)
  have g: "\<not> failed (fst (step env_ok (Create_pen black 1 4096) init_state))"
    by (simp add: eval_defs)
  have m: "\<not> list_ex failed (fst (run brush_scenario init_state))"
    by (simp add: eval_defs)
  have i: "current_error init_state = SIZE_MAX"
    by (simp add: init_state_def)
  show ?thesis
    using f n g m i
      slot_written_only_by_failures
        [of env_bad "Initialize_gdiplus 4096" init_state brush_scenario]
      slot_written_only_by_failures
        [of env_ok "Create_pen black 1 4096" init_state brush_scenario]
    by simp
qed

text \<open>
  C6. For every \<open>hDC\<close> and every output location that is not null, \<open>from_hdc\<close> returns 1,
  leaves \<open>current_error\<close> as it was and stores the object the native constructor built,
  whatever status that object carries: nothing the native library answers is checked.
\<close>

theorem from_hdc_succeeds:
  "graphics \<noteq> nullptr \<Longrightarrow>
     fst (from_hdc e hDC graphics s) = Return 1
     \<and> current_error (snd (from_hdc e hDC graphics s)) = current_error s
     \<and> memory (snd (from_hdc e hDC graphics s)) graphics = Some (Graphics (graphics_built e hDC))"
  by (simp add: from_hdc_def Let_def current_error_native current_error_store memory_store)

theorem from_hdc_succeeds_witness:
  "(4096 :: ptr) \<noteq> nullptr
   \<and> fst (from_hdc env_ok 77 4096 init_state) = Return 1
   \<and> current_error (snd (from_hdc env_ok 77 4096 init_state)) = SIZE_MAX
   \<and> memory (snd (from_hdc env_ok 77 4096 init_state)) 4096 =
       Some (Graphics \<lparr>native_graphics = 77, graphics_last_status = 2\<rparr>)"
proof -
  have h: "(4096 :: ptr) \<noteq> nullptr"
    by (simp add: nullptr_def)
  show ?thesis
    using h from_hdc_succeeds [OF h, of env_ok 77 init_state]
    by (simp add: env_ok_def init_state_def)
qed

text \<open>
  C7. For every colour and every stroke width, when the output location is not null and
  the native constructor builds a pen, \<open>create_pen\<close> returns 1 and stores that pen, and
  after \<open>done_pen\<close> on the stored pen \<open>current_error\<close> is what it was before the two calls.
\<close>

theorem create_pen_done_pen:
  "pen \<noteq> nullptr \<Longrightarrow> pen_built e (cvt_clr color) width = Some p \<Longrightarrow>
     fst (create_pen e color width pen s) = Return 1
     \<and> memory (snd (create_pen e color width pen s)) pen = Some (Pen p)
     \<and> current_error (done_pen p (snd (create_pen e color width pen s))) = current_error s"
  by (simp add: create_pen_def Let_def done_pen_def current_error_native current_error_store
      memory_store)

theorem create_pen_done_pen_witness:
  "(4096 :: ptr) \<noteq> nullptr
   \<and> pen_built env_ok (cvt_clr red) 3 = Some \<lparr>native_pen = 16, pen_last_status = 0\<rparr>
   \<and> fst (create_pen env_ok red 3 4096 init_state) = Return 1
   \<and> memory (snd (create_pen env_ok red 3 4096 init_state)) 4096 =
       Some (Pen \<lparr>native_pen = 16, pen_last_status = 0\<rparr>)
   \<and> current_error (done_pen \<lparr>native_pen = 16, pen_last_status = 0\<rparr>
        (snd (create_pen env_ok red 3 4096 init_state))) = SIZE_MAX"
proof -
  have h: "(4096 :: ptr) \<noteq> nullptr"
    by (simp add: nullptr_def)
  have b: "pen_built env_ok (cvt_clr red) 3 = Some \<lparr>native_pen = 16, pen_last_status = 0\<rparr>"
    by (simp add: env_ok_def)
  show ?thesis
    using h b create_pen_done_pen [OF h b, of init_state]
    by (simp add: init_state_def)
qed

text \<open>
  C8. Each of the seven drawing functions returns 1 and leaves \<open>current_error\<close> as it
  was, for every argument and whatever the native library answers.
\<close>

theorem drawing_always_returns_1:
  "fst (draw_line e g p x1 y1 x2 y2 s) = Return 1
   \<and> current_error (snd (draw_line e g p x1 y1 x2 y2 s)) = current_error s
   \<and> fst (draw_rectangle e g p x y w h s) = Return 1
   \<and> current_error (snd (draw_rectangle e g p x y w h s)) = current_error s
   \<and> fst (draw_arc e g p x y w h sa ea s) = Return 1
   \<and> current_error (snd (draw_arc e g p x y w h sa ea s)) = current_error s
   \<and> fst (draw_ellipse e g p x y w h s) = Return 1
   \<and> current_error (snd (draw_ellipse e g p x y w h s)) = current_error s
   \<and> fst (fill_rectangle e g b x y w h s) = Return 1
   \<and> current_error (snd (fill_rectangle e g b x y w h s)) = current_error s
   \<and> fst (fill_arc e g b x y w h sa ea s) = Return 1
   \<and> current_error (snd (fill_arc e g b x y w h sa ea s)) = current_error s
   \<and> fst (fill_ellipse e g b x y w h s) = Return 1
   \<and> current_error (snd (fill_ellipse e g b x y w h s)) = current_error s"
  by (simp add: drawing_defs forward_result current_error_native)

text \<open>
  C9. \<open>current_error\<close> starts as \<open>SIZE_MAX\<close>, which is no index of the three-element
  \<open>error_list\<close>: \<open>err_pointer\<close> in the initial state reads outside the list. After a run
  from the initial state the index is within bounds exactly when some call of the run has
  failed; after a run without a failure \<open>err_pointer\<close> reads outside the list.
\<close>

theorem err_pointer_bounds:
  "err_pointer init_state = OutOfBounds
   \<and> \<not> unat (current_error init_state) < length error_list
   \<and> (unat (current_error (snd (run cs init_state))) < length error_list
        \<longleftrightarrow> list_ex failed (fst (run cs init_state)))
   \<and> (\<not> list_ex failed (fst (run cs init_state)) \<longrightarrow>
        err_pointer (snd (run cs init_state)) = OutOfBounds)"
proof -
  have i: "current_error init_state = SIZE_MAX"
    by (simp add: init_state_def)
  have a: "\<not> unat (current_error init_state) < length error_list"
    by (simp add: i unat_SIZE_MAX length_error_list)
  have b: "unat (current_error (snd (run cs init_state))) < length error_list
        \<longleftrightarrow> list_ex failed (fst (run cs init_state))"
    by (simp add: run_slot i unat_SIZE_MAX length_error_list)
  have c: "\<not> list_ex failed (fst (run cs init_state)) \<longrightarrow>
        err_pointer (snd (run cs init_state)) = OutOfBounds"
    by (simp add: run_err_pointer)
  from a b c err_pointer_init show ?thesis by blast
qed

theorem err_pointer_bounds_witness:
  "\<not> list_ex failed (fst (run brush_scenario init_state))
   \<and> \<not> unat (current_error (snd (run brush_scenario init_state))) < length error_list
   \<and> err_pointer (snd (run brush_scenario init_state)) = OutOfBounds"
proof -
  have m: "\<not> list_ex failed (fst (run brush_scenario init_state))"
    by (simp add: eval_defs)
  show ?thesis
    using m err_pointer_bounds [of brush_scenario] by simp
qed

text \<open>
  C10. No call writes anything but 1 to \<open>current_error\<close>: after a call the slot holds
  what it held before, or 1. After every run from the initial state it holds \<open>SIZE_MAX\<close>
  or 1, never 0 (the exception kind) and never 2 (the null-pointer kind).
\<close>

theorem slot_is_SIZE_MAX_or_1:
  "(current_error (snd (step e c s)) = current_error s \<or> current_error (snd (step e c s)) = 1)
   \<and> (current_error (snd (run cs init_state)) = SIZE_MAX
        \<or> current_error (snd (run cs init_state)) = 1)
   \<and> current_error (snd (run cs init_state)) \<noteq> 0
   \<and> current_error (snd (run cs init_state)) \<noteq> 2"
proof -
  have "current_error (snd (run cs init_state)) = SIZE_MAX
        \<or> current_error (snd (run cs init_state)) = 1"
    by (simp add: run_slot init_state_def)
  then show ?thesis using SIZE_MAX_neq by (auto simp: step_slot)
qed

end
